theory Spec2Isabelle
  imports Main "HOL-Library.Sublist" "HOL-Library.AList" "HOL-Library.Multiset"
begin

section \<open>Strings of the host language\<close>

text \<open>
  Source strings are modelled as \<^typ>\<open>string\<close>, a list of bytes (the UTF-8 form of
  the text). Case conversion is the ASCII one: the letters \<open>a\<close> to \<open>z\<close> and \<open>A\<close> to \<open>Z\<close>
  are exchanged, every other byte is left alone.
\<close>

definition lowerLetters :: string where
  "lowerLetters = ''abcdefghijklmnopqrstuvwxyz''"

definition upperLetters :: string where
  "upperLetters = ''ABCDEFGHIJKLMNOPQRSTUVWXYZ''"

definition toUpperChar :: "char \<Rightarrow> char" where
  "toUpperChar c =
     (case map_of (zip lowerLetters upperLetters) c of Some u \<Rightarrow> u | None \<Rightarrow> c)"

definition toLowerChar :: "char \<Rightarrow> char" where
  "toLowerChar c =
     (case map_of (zip upperLetters lowerLetters) c of Some l \<Rightarrow> l | None \<Rightarrow> c)"

definition toUpperCase :: "string \<Rightarrow> string" where
  "toUpperCase s = map toUpperChar s"

definition toLowerCase :: "string \<Rightarrow> string" where
  "toLowerCase s = map toLowerChar s"

text \<open>
  \<open>s.split(c)\<close> for a one-character separator: the pieces between the separators, an
  empty piece at each end that a separator touches, and \<open>[""]\<close> for the empty string.
\<close>

fun split :: "char \<Rightarrow> string \<Rightarrow> string list" where
  "split c [] = [[]]"
| "split c (x # xs) =
     (if x = c then [] # split c xs
      else (case split c xs of [] \<Rightarrow> [[x]] | w # ws \<Rightarrow> (x # w) # ws))"

text \<open>\<open>xs.join(sep)\<close>.\<close>

fun join :: "string \<Rightarrow> string list \<Rightarrow> string" where
  "join sep [] = []"
| "join sep [x] = x"
| "join sep (x # y # ys) = x @ sep @ join sep (y # ys)"

section \<open>The catalog rows\<close>

text \<open>
  A row of \<open>PRAGMA table_info\<close> (interface \<open>ColumnInfo\<close>) and a row of the table list
  (interface \<open>TableInfo\<close>). The field \<open>type\<close> is called \<open>ctype\<close> here, and the
  \<open>name\<close> of a table row \<open>tname\<close>. The numbers are the integers that the catalog
  gives.
\<close>

record ColumnInfo =
  cid :: int
  name :: string
  ctype :: string
  notnull :: int
  dflt_value :: "string option"
  pk :: int

record TableInfo =
  tname :: string

section \<open>Type mapper and identifier transformer\<close>

text \<open>
  \<open>typeMap\<close> is the object literal of \<open>mapSqliteTypeToTypescript\<close>. Its six values are
  non-empty strings, so \<open>typeMap[baseType] || 'any'\<close> gives the entry when the key is in
  the table. A key outside the table gives \<open>'any'\<close>: the properties an object literal
  inherits all have a lower-case letter in their names, and \<open>baseType\<close> has none.
\<close>

definition typeMap :: "(string \<times> string) list" where
  "typeMap =
     [(''INTEGER'', ''number | bigint''),
      (''REAL'', ''number''),
      (''TEXT'', ''string''),
      (''BLOB'', ''Uint8Array''),
      (''BOOLEAN'', ''number''),
      (''TIMESTAMP'', ''string'')]"

definition mapSqliteTypeToTypescript :: "string \<Rightarrow> string" where
  "mapSqliteTypeToTypescript sqliteType =
     (let baseType = toUpperCase (hd (split CHR ''('' sqliteType))
      in case map_of typeMap baseType of Some t \<Rightarrow> t | None \<Rightarrow> ''any'')"

text \<open>
  The type mapper with the host's \<open>toUpperCase\<close> as the parameter \<open>up\<close>. On text of
  ASCII characters the host's conversion is \<^const>\<open>toUpperCase\<close>, and its result holds no
  letter \<open>a\<close> to \<open>z\<close>; so \<open>baseType\<close> is never the name of a member that the object
  literal inherits, and the lookup is the one in the six entries.
  \<^const>\<open>mapSqliteTypeToTypescript\<close> is the instance at \<^const>\<open>toUpperCase\<close>.
\<close>

definition mapSqliteTypeToTypescriptWith :: "(string \<Rightarrow> string) \<Rightarrow> string \<Rightarrow> string" where
  "mapSqliteTypeToTypescriptWith up sqliteType =
     (let baseType = up (hd (split CHR ''('' sqliteType))
      in case map_of typeMap baseType of Some t \<Rightarrow> t | None \<Rightarrow> ''any'')"

text \<open>
  A conversion that is the ASCII one except that it turns the dotless \<open>i\<close> (the bytes
  \<open>0xC4 0xB1\<close>) into \<open>I\<close>, as the host does.
\<close>

fun upperDotlessI :: "string \<Rightarrow> string" where
  "upperDotlessI [] = []"
| "upperDotlessI [a] = [toUpperChar a]"
| "upperDotlessI (a # b # cs) =
     (if a = CHR 0xC4 \<and> b = CHR 0xB1 then CHR ''I'' # upperDotlessI cs
      else toUpperChar a # upperDotlessI (b # cs))"

definition capitalize :: "string \<Rightarrow> string" where
  "capitalize word =
     (case word of [] \<Rightarrow> [] | c # cs \<Rightarrow> toUpperChar c # toLowerCase cs)"

definition pascalCase :: "string \<Rightarrow> string" where
  "pascalCase str = join [] (map capitalize (split CHR ''_'' str))"

section \<open>\<open>JSON.stringify\<close> on an array of strings\<close>

text \<open>
  A string is quoted; the quote, the backslash and the control characters below
  \<open>0x20\<close> are escaped, the last ones as \<open>\b \t \n \f \r\<close> or as \<open>\u00XX\<close> with lower-case
  hexadecimal digits. An array is the quoted elements between brackets, separated by
  commas with no space.
\<close>

definition hexDigit :: "nat \<Rightarrow> char" where
  "hexDigit n = ''0123456789abcdef'' ! (n mod 16)"

definition jsonEscape :: "char \<Rightarrow> string" where
  "jsonEscape c =
     (if c = CHR 0x22 then [CHR 0x5C, CHR 0x22]
      else if c = CHR 0x5C then [CHR 0x5C, CHR 0x5C]
      else if c = CHR 0x08 then [CHR 0x5C, CHR ''b'']
      else if c = CHR 0x09 then [CHR 0x5C, CHR ''t'']
      else if c = CHR 0x0A then [CHR 0x5C, CHR ''n'']
      else if c = CHR 0x0C then [CHR 0x5C, CHR ''f'']
      else if c = CHR 0x0D then [CHR 0x5C, CHR ''r'']
      else if (of_char c :: nat) < 32
        then [CHR 0x5C, CHR ''u'', CHR ''0'', CHR ''0'',
              hexDigit (of_char c div 16), hexDigit (of_char c)]
      else [c])"

definition jsonString :: "string \<Rightarrow> string" where
  "jsonString s = [CHR 0x22] @ concat (map jsonEscape s) @ [CHR 0x22]"

definition jsonStringArray :: "string list \<Rightarrow> string" where
  "jsonStringArray xs = ''['' @ join '','' (map jsonString xs) @ '']''"

section \<open>The code generator\<close>

text \<open>
  \<open>columns.filter(col => col.pk > 0).sort((a, b) => a.pk - b.pk)\<close>; the sort of the
  host language is stable, as \<^const>\<open>sort_key\<close> is.
\<close>

definition primaryKeys :: "ColumnInfo list \<Rightarrow> ColumnInfo list" where
  "primaryKeys columns = sort_key pk (filter (\<lambda>col. pk col > 0) columns)"

text \<open>
  The pieces of the text that the loop body of \<open>generateInterfaces\<close> appends to
  \<open>interfaceContent\<close> for the table named \<open>t\<close> with the rows \<open>columns\<close>, in the order of
  the source. \<open>column.notnull || !!column.pk\<close> is true when either number is not zero.
\<close>

definition nullSuffix :: "ColumnInfo \<Rightarrow> string" where
  "nullSuffix column = (if notnull column \<noteq> 0 \<or> pk column \<noteq> 0 then [] else '' | null'')"

definition fieldType :: "ColumnInfo \<Rightarrow> string" where
  "fieldType column = mapSqliteTypeToTypescript (ctype column) @ nullSuffix column"

definition fieldLine :: "ColumnInfo \<Rightarrow> string" where
  "fieldLine column = ''    '' @ name column @ '': '' @ fieldType column @ '';\<newline>''"

definition importText :: string where
  \<open>importText = ''import { Database } from "bun:sqlite";\<newline>\<newline>''\<close>

definition typeDeclaration :: "string \<Rightarrow> ColumnInfo list \<Rightarrow> string" where
  "typeDeclaration t columns =
     ''export interface '' @ pascalCase t @ '' {\<newline>''
     @ concat (map fieldLine columns)
     @ ''}\<newline>\<newline>''"

definition insertFunction :: "string \<Rightarrow> ColumnInfo list \<Rightarrow> string" where
  "insertFunction t columns =
     ''export function insert'' @ pascalCase t @ ''(db: Database, '' @ t @ '': Partial<''
       @ pascalCase t @ ''>): '' @ pascalCase t @ '' {\<newline>''
     @ ''    const columns = '' @ jsonStringArray (map name columns) @ '';\<newline>''
     @ ''    const insertColumns = columns.filter(col => '' @ t @ ''[col as keyof typeof ''
       @ t @ ''] !== undefined);\<newline>''
     @ ''    const insertValues = insertColumns.map(col => '' @ t @ ''[col as keyof typeof ''
       @ t @ '']);\<newline>''
     @ ''    const placeholders = insertColumns.map(() => '?').join(', ');\<newline>''
     @ ''    const sql = `INSERT INTO '' @ t
       @ '' (${insertColumns.join(', ')}) VALUES (${placeholders}) RETURNING *`;\<newline>''
     @ ''    const stmt = db.prepare<'' @ pascalCase t @ '', any[]>(sql);\<newline>''
     @ ''    const result = stmt.get(insertValues);\<newline>''
     @ ''    return result as '' @ pascalCase t @ '';\<newline>''
     @ ''}\<newline>\<newline>''"

definition getAllFunction :: "string \<Rightarrow> string" where
  "getAllFunction t =
     ''export function getAll'' @ pascalCase t @ ''(db: Database): '' @ pascalCase t
       @ ''[] {\<newline>''
     @ ''    const stmt = db.prepare<'' @ pascalCase t @ '', []>('SELECT * FROM '' @ t
       @ [CHR 0x27] @ '');\<newline>''
     @ ''    return stmt.all() as '' @ pascalCase t @ ''[];\<newline>''
     @ ''}\<newline>\<newline>''"

definition pkParams :: "ColumnInfo list \<Rightarrow> string" where
  "pkParams pks =
     join '', '' (map (\<lambda>pk. name pk @ '': '' @ mapSqliteTypeToTypescript (ctype pk)) pks)"

definition pkWhere :: "ColumnInfo list \<Rightarrow> string" where
  "pkWhere pks = join '' AND '' (map (\<lambda>pk. name pk @ '' = ?'') pks)"

definition pkNames :: "ColumnInfo list \<Rightarrow> string" where
  "pkNames pks = join '', '' (map name pks)"

definition getFunction :: "string \<Rightarrow> ColumnInfo list \<Rightarrow> string" where
  "getFunction t pks =
     ''export function get'' @ pascalCase t @ ''(db: Database, '' @ pkParams pks @ ''): ''
       @ pascalCase t @ '' | null {\<newline>''
     @ ''    const stmt = db.prepare<'' @ pascalCase t @ '', (''
       @ mapSqliteTypeToTypescript (ctype (hd pks)) @ '')[]>('SELECT * FROM '' @ t
       @ '' WHERE '' @ pkWhere pks @ [CHR 0x27] @ '');\<newline>''
     @ ''    return stmt.get('' @ pkNames pks @ '') as '' @ pascalCase t @ '' | null;\<newline>''
     @ ''}\<newline>\<newline>''"

definition updateFunction :: "string \<Rightarrow> ColumnInfo list \<Rightarrow> ColumnInfo list \<Rightarrow> string" where
  "updateFunction t columns pks =
     ''export function update'' @ pascalCase t @ ''(db: Database, '' @ pkParams pks @ '', ''
       @ t @ '': Partial<'' @ pascalCase t @ ''>): '' @ pascalCase t @ '' | null {\<newline>''
     @ ''    const columns = '' @ jsonStringArray (map name columns) @ '';\<newline>''
     @ ''    const updateColumns = columns.filter(col => '' @ t @ ''[col as keyof typeof ''
       @ t @ ''] !== undefined && !'' @ jsonStringArray (map name pks)
       @ ''.includes(col));\<newline>''
     @ ''    if (updateColumns.length === 0) return get'' @ pascalCase t @ ''(db, ''
       @ pkNames pks @ '');\<newline>''
     @ ''    const setClause = updateColumns.map(col => `${col} = ?`).join(', ');\<newline>''
     @ ''    const updateValues = updateColumns.map(col => '' @ t @ ''[col as keyof typeof ''
       @ t @ '']);\<newline>''
     @ ''    const sql = `UPDATE '' @ t @ '' SET ${setClause} WHERE '' @ pkWhere pks
       @ '' RETURNING *`;\<newline>''
     @ ''    const stmt = db.prepare<'' @ pascalCase t @ '', any[]>(sql);\<newline>''
     @ ''    const result = stmt.get([...updateValues, '' @ pkNames pks @ '']);\<newline>''
     @ ''    return result as '' @ pascalCase t @ '' | null;\<newline>''
     @ ''}\<newline>\<newline>''"

definition deleteFunction :: "string \<Rightarrow> ColumnInfo list \<Rightarrow> string" where
  "deleteFunction t pks =
     ''export function delete'' @ pascalCase t @ ''(db: Database, '' @ pkParams pks
       @ ''): void {\<newline>''
     @ ''    const stmt = db.prepare<'' @ pascalCase t @ '', (''
       @ mapSqliteTypeToTypescript (ctype (hd pks)) @ '')[]>('DELETE FROM '' @ t
       @ '' WHERE '' @ pkWhere pks @ [CHR 0x27] @ '');\<newline>''
     @ ''    stmt.run('' @ pkNames pks @ '');\<newline>''
     @ ''}\<newline>''"

text \<open>
  The value of \<open>interfaceContent\<close> at the end of the loop body. \<open>primaryKeys[0]\<close> is
  read in the branch where the list is not empty only.
\<close>

definition interfaceContent :: "string \<Rightarrow> ColumnInfo list \<Rightarrow> string" where
  "interfaceContent t columns =
     (let pks = primaryKeys columns
      in importText
         @ typeDeclaration t columns
         @ insertFunction t columns
         @ getAllFunction t
         @ (if length pks > 0
            then getFunction t pks @ updateFunction t columns pks @ deleteFunction t pks
            else []))"


definition unlines :: "string list \<Rightarrow> string" where
  "unlines ls = concat (map (\<lambda>l. l @ [CHR 0x0A]) ls)"




definition getFunctionLines :: "string \<Rightarrow> ColumnInfo list \<Rightarrow> string list" where
  "getFunctionLines t pks =
     [''export function get'' @ pascalCase t @ ''(db: Database, '' @ pkParams pks @ ''): ''
        @ pascalCase t @ '' | null {'',
      ''    const stmt = db.prepare<'' @ pascalCase t @ '', (''
        @ mapSqliteTypeToTypescript (ctype (hd pks)) @ '')[]>('SELECT * FROM '' @ t
        @ '' WHERE '' @ pkWhere pks @ [CHR 0x27] @ '');'',
      ''    return stmt.get('' @ pkNames pks @ '') as '' @ pascalCase t @ '' | null;'',
      ''}'', []]"

definition updateFunctionLines :: "string \<Rightarrow> ColumnInfo list \<Rightarrow> ColumnInfo list \<Rightarrow> string list" where
  "updateFunctionLines t columns pks =
     [''export function update'' @ pascalCase t @ ''(db: Database, '' @ pkParams pks @ '', ''
        @ t @ '': Partial<'' @ pascalCase t @ ''>): '' @ pascalCase t @ '' | null {'',
      ''    const columns = '' @ jsonStringArray (map name columns) @ '';'',
      ''    const updateColumns = columns.filter(col => '' @ t @ ''[col as keyof typeof ''
        @ t @ ''] !== undefined && !'' @ jsonStringArray (map name pks)
        @ ''.includes(col));'',
      ''    if (updateColumns.length === 0) return get'' @ pascalCase t @ ''(db, ''
        @ pkNames pks @ '');'',
      ''    const setClause = updateColumns.map(col => `${col} = ?`).join(', ');'',
      ''    const updateValues = updateColumns.map(col => '' @ t @ ''[col as keyof typeof ''
        @ t @ '']);'',
      ''    const sql = `UPDATE '' @ t @ '' SET ${setClause} WHERE '' @ pkWhere pks
        @ '' RETURNING *`;'',
      ''    const stmt = db.prepare<'' @ pascalCase t @ '', any[]>(sql);'',
      ''    const result = stmt.get([...updateValues, '' @ pkNames pks @ '']);'',
      ''    return result as '' @ pascalCase t @ '' | null;'',
      ''}'', []]"

definition deleteFunctionLines :: "string \<Rightarrow> ColumnInfo list \<Rightarrow> string list" where
  "deleteFunctionLines t pks =
     [''export function delete'' @ pascalCase t @ ''(db: Database, '' @ pkParams pks
        @ ''): void {'',
      ''    const stmt = db.prepare<'' @ pascalCase t @ '', (''
        @ mapSqliteTypeToTypescript (ctype (hd pks)) @ '')[]>('DELETE FROM '' @ t
        @ '' WHERE '' @ pkWhere pks @ [CHR 0x27] @ '');'',
      ''    stmt.run('' @ pkNames pks @ '');'',
      ''}'']"



text \<open>
  \<open>generateInterfaces\<close>. The catalog is what the two queries return: the rows of the table
  list in enumeration order and, for a table name, its \<open>PRAGMA table_info\<close> rows. The
  result is the \<open>Map\<close> of the source as an association list in insertion order:
  \<open>interfaces.set\<close> replaces the value of a key that is there, at its place, and appends a
  key that is not, as \<^const>\<open>AList.update\<close> does.
\<close>

record Catalog =
  tables :: "TableInfo list"
  table_info :: "string \<Rightarrow> ColumnInfo list"

definition generateInterfaces :: "Catalog \<Rightarrow> (string \<times> string) list" where
  "generateInterfaces db =
     fold (\<lambda>table interfaces.
             AList.update (tname table)
               (interfaceContent (tname table) (table_info db (tname table))) interfaces)
       (tables db) []"

text \<open>
  \<open>generateFiles\<close> on a file store (path to content): one file per entry of the mapping,
  then the manifest \<open>index.ts\<close>. \<open>pathJoin\<close> stands for \<open>join\<close> of \<open>node:path\<close>. The
  directory creation and the console messages are left out.
\<close>

type_synonym files = "string \<rightharpoonup> string"

definition indexContent :: "(string \<times> string) list \<Rightarrow> string" where
  "indexContent interfaces =
     join ''\<newline>''
       (map (\<lambda>tableName. ''export * from './'' @ tableName @ [CHR 0x27] @ '';'')
          (map fst interfaces))"

definition generateFiles ::
  "(string \<Rightarrow> string \<Rightarrow> string) \<Rightarrow> string \<Rightarrow> (string \<times> string) list \<Rightarrow> files \<Rightarrow> files" where
  "generateFiles pathJoin outputDir interfaces fs =
     (let fs1 = fold (\<lambda>(tableName, content) store.
                        store(pathJoin outputDir (tableName @ ''.ts'') \<mapsto> content))
                  interfaces fs
      in fs1(pathJoin outputDir ''index.ts'' \<mapsto> indexContent interfaces))"

text \<open>The two calls of \<open>main\<close> after the arguments are parsed.\<close>

definition run :: "(string \<Rightarrow> string \<Rightarrow> string) \<Rightarrow> string \<Rightarrow> Catalog \<Rightarrow> files \<Rightarrow> files" where
  "run pathJoin outputDir db fs = generateFiles pathJoin outputDir (generateInterfaces db) fs"

section \<open>What the generated functions do\<close>

text \<open>
  The bodies that the generator writes for a table, read as functions of the table name
  \<open>t\<close> and the rows \<open>columns\<close> that the generator had.

  A value of the host language is a \<open>jsval\<close>; \<open>Member n\<close> is the member named \<open>n\<close> of
  \<open>Object.prototype\<close> (a function, or the prototype itself for \<open>__proto__\<close>). A record
  argument is an object: its own fields, and the members that a lookup finds further up
  its prototype chain. \<open>record[col]\<close> gives the own field when there is one, otherwise
  the inherited member, otherwise \<open>undefined\<close>. \<open>plainObject\<close> is an object written as a
  literal: what it inherits is \<open>Object.prototype\<close>.
\<close>

datatype jsval =
  Undefined | Null | Num int | Str string | Bool bool | Bytes "nat list" | Member string


definition objectPrototypeNames :: "string list" where
  "objectPrototypeNames =
     [''constructor'', ''hasOwnProperty'', ''isPrototypeOf'', ''propertyIsEnumerable'',
      ''toLocaleString'', ''toString'', ''valueOf'', ''__proto__'', ''__defineGetter__'',
      ''__defineSetter__'', ''__lookupGetter__'', ''__lookupSetter__'']"




text \<open>
  The database handle, as far as the create, get and update functions use it.
  \<open>db.prepare(sql)\<close> gives a statement or raises a fault (\<open>Inl\<close>);
  \<open>stmt.get(params)\<close> gives an outcome of any type \<open>'r\<close> (a row, nothing, a fault). A
  fault of \<open>prepare\<close> is the outcome of the function that called it: no generated
  function catches anything.
\<close>

record ('s, 'r) Database =
  prepare :: "string \<Rightarrow> 'r + 's"
  stmt_get :: "'s \<Rightarrow> jsval list \<Rightarrow> 'r"














section \<open>Example inputs\<close>

text \<open>
  The table \<open>users (id INTEGER PRIMARY KEY, username TEXT NOT NULL, bio TEXT)\<close> as the
  catalog reports it.
\<close>

definition usersColumns :: "ColumnInfo list" where
  "usersColumns =
     [\<lparr>cid = 0, name = ''id'', ctype = ''INTEGER'', notnull = 0, dflt_value = None, pk = 1\<rparr>,
      \<lparr>cid = 1, name = ''username'', ctype = ''TEXT'', notnull = 1, dflt_value = None, pk = 0\<rparr>,
      \<lparr>cid = 2, name = ''bio'', ctype = ''TEXT'', notnull = 0, dflt_value = None, pk = 0\<rparr>]"

text \<open>
  A table whose composite key is declared against the column order, a catalog of two
  tables whose names give the same type name, and a path join.
\<close>




text \<open>
  The example of the repository's README: the rows of its \<open>users\<close> table and the unit it
  shows for them (without the empty line that ends the listing).
\<close>

definition readmeColumns :: "ColumnInfo list" where
  "readmeColumns =
     [\<lparr>cid = 0, name = ''id'', ctype = ''INTEGER'', notnull = 0, dflt_value = None, pk = 1\<rparr>,
      \<lparr>cid = 1, name = ''username'', ctype = ''TEXT'', notnull = 1, dflt_value = None, pk = 0\<rparr>,
      \<lparr>cid = 2, name = ''email'', ctype = ''TEXT'', notnull = 1, dflt_value = None, pk = 0\<rparr>,
      \<lparr>cid = 3, name = ''password_hash'', ctype = ''TEXT'', notnull = 1, dflt_value = None,
         pk = 0\<rparr>,
      \<lparr>cid = 4, name = ''is_admin'', ctype = ''BOOLEAN'', notnull = 1,
         dflt_value = Some ''FALSE'', pk = 0\<rparr>,
      \<lparr>cid = 5, name = ''characters_remaining'', ctype = ''INTEGER'', notnull = 1,
         dflt_value = Some ''1000000'', pk = 0\<rparr>,
      \<lparr>cid = 6, name = ''created_at'', ctype = ''TIMESTAMP'', notnull = 0,
         dflt_value = Some ''CURRENT_TIMESTAMP'', pk = 0\<rparr>,
      \<lparr>cid = 7, name = ''updated_at'', ctype = ''TIMESTAMP'', notnull = 0,
         dflt_value = Some ''CURRENT_TIMESTAMP'', pk = 0\<rparr>]"

definition readmeUnit :: string where
  \<open>readmeUnit =
     ''import { Database } from "bun:sqlite";\<newline>''
     @ ''\<newline>''
     @ ''export interface Users {\<newline>''
     @ ''    id: number | bigint;\<newline>''
     @ ''    username: string;\<newline>''
     @ ''    email: string;\<newline>''
     @ ''    password_hash: string;\<newline>''
     @ ''    is_admin: number;\<newline>''
     @ ''    characters_remaining: number | bigint;\<newline>''
     @ ''    created_at: string | null;\<newline>''
     @ ''    updated_at: string | null;\<newline>''
     @ ''}\<newline>''
     @ ''\<newline>''
     @ ''export function insertUsers(db: Database, users: Partial<Users>): Users {\<newline>''
     @ ''    const columns = ["id","username","email","password_hash","is_admin","characters_remaining","created_at","updated_at"];\<newline>''
     @ ''    const insertColumns = columns.filter(col => users[col as keyof typeof users] !== undefined);\<newline>''
     @ ''    const insertValues = insertColumns.map(col => users[col as keyof typeof users]);\<newline>''
     @ ''    const placeholders = insertColumns.map(() => '?').join(', ');\<newline>''
     @ ''    const sql = `INSERT INTO users (${insertColumns.join(', ')}) VALUES (${placeholders}) RETURNING *`;\<newline>''
     @ ''    const stmt = db.prepare<Users, any[]>(sql);\<newline>''
     @ ''    const result = stmt.get(insertValues);\<newline>''
     @ ''    return result as Users;\<newline>''
     @ ''}\<newline>''
     @ ''\<newline>''
     @ ''export function getAllUsers(db: Database): Users[] {\<newline>''
     @ ''    const stmt = db.prepare<Users, []>('SELECT * FROM users');\<newline>''
     @ ''    return stmt.all() as Users[];\<newline>''
     @ ''}\<newline>''
     @ ''\<newline>''
     @ ''export function getUsers(db: Database, id: number | bigint): Users | null {\<newline>''
     @ ''    const stmt = db.prepare<Users, (number | bigint)[]>('SELECT * FROM users WHERE id = ?');\<newline>''
     @ ''    return stmt.get(id) as Users | null;\<newline>''
     @ ''}\<newline>''
     @ ''\<newline>''
     @ ''export function updateUsers(db: Database, id: number | bigint, users: Partial<Users>): Users | null {\<newline>''
     @ ''    const columns = ["id","username","email","password_hash","is_admin","characters_remaining","created_at","updated_at"];\<newline>''
     @ ''    const updateColumns = columns.filter(col => users[col as keyof typeof users] !== undefined && !["id"].includes(col));\<newline>''
     @ ''    if (updateColumns.length === 0) return getUsers(db, id);\<newline>''
     @ ''    const setClause = updateColumns.map(col => `${col} = ?`).join(', ');\<newline>''
     @ ''    const updateValues = updateColumns.map(col => users[col as keyof typeof users]);\<newline>''
     @ ''    const sql = `UPDATE users SET ${setClause} WHERE id = ? RETURNING *`;\<newline>''
     @ ''    const stmt = db.prepare<Users, any[]>(sql);\<newline>''
     @ ''    const result = stmt.get([...updateValues, id]);\<newline>''
     @ ''    return result as Users | null;\<newline>''
     @ ''}\<newline>''
     @ ''\<newline>''
     @ ''export function deleteUsers(db: Database, id: number | bigint): void {\<newline>''
     @ ''    const stmt = db.prepare<Users, (number | bigint)[]>('DELETE FROM users WHERE id = ?');\<newline>''
     @ ''    stmt.run(id);\<newline>''
     @ ''}\<newline>''\<close>


definition lineNoColumn :: ColumnInfo where
  "lineNoColumn =
     \<lparr>cid = 0, name = ''line_no'', ctype = ''INTEGER'', notnull = 1, dflt_value = None, pk = 2\<rparr>"

definition orderIdColumn :: ColumnInfo where
  "orderIdColumn =
     \<lparr>cid = 1, name = ''order_id'', ctype = ''TEXT'', notnull = 1, dflt_value = None, pk = 1\<rparr>"

definition qtyColumn :: ColumnInfo where
  "qtyColumn =
     \<lparr>cid = 2, name = ''qty'', ctype = ''INTEGER'', notnull = 0, dflt_value = None, pk = 0\<rparr>"

definition orderLinesColumns :: "ColumnInfo list" where
  "orderLinesColumns = [lineNoColumn, orderIdColumn, qtyColumn]"

definition collidingCatalog :: Catalog where
  "collidingCatalog =
     \<lparr>tables = [\<lparr>tname = ''user_s''\<rparr>, \<lparr>tname = ''user__s''\<rparr>],
      table_info = (\<lambda>_. usersColumns)\<rparr>"

definition slashJoin :: "string \<Rightarrow> string \<Rightarrow> string" where
  "slashJoin dir file = dir @ ''/'' @ file"

section \<open>Facts about the string helpers\<close>

lemma split_not_Nil: "split c s \<noteq> []"
  by (induction s) (auto split: list.splits)

lemma hd_split: "hd (split c s) = takeWhile (\<lambda>x. x \<noteq> c) s"
proof (induction s)
  case Nil
  show ?case by simp
next
  case (Cons x xs)
  then show ?case
    using split_not_Nil [of c xs] by (auto split: list.splits)
qed

subsection \<open>Placeholders\<close>

lemma join_replicate_Suc:
  "join sep (replicate (Suc (Suc n)) x) = x @ sep @ join sep (replicate (Suc n) x)"
  by simp



subsection \<open>The type mapper and the primary key\<close>

lemma mapType_cases:
  "mapSqliteTypeToTypescript s \<in>
     {''number | bigint'', ''number'', ''string'', ''Uint8Array'', ''any''}"
  by (simp add: mapSqliteTypeToTypescript_def typeMap_def Let_def)

lemma mapType_no_null_suffix: "\<not> suffix '' | null'' (mapSqliteTypeToTypescript s)"
  using mapType_cases [of s] by (auto simp: suffix_to_prefix)

lemma set_primaryKeys: "set (primaryKeys columns) = {c \<in> set columns. 0 < pk c}"
  by (auto simp: primaryKeys_def)

lemma mapType_literal [simp]:
  "mapSqliteTypeToTypescript ''INTEGER'' = ''number | bigint''"
  "mapSqliteTypeToTypescript ''TEXT'' = ''string''"
  by (simp_all add: mapSqliteTypeToTypescript_def typeMap_def toUpperCase_def toUpperChar_def
      lowerLetters_def upperLetters_def)

subsection \<open>The output mapping and the file store\<close>

lemma update_fresh: "k \<notin> fst ` set al \<Longrightarrow> AList.update k v al = al @ [(k, v)]"
  by (induction al) auto

lemma fold_update_distinct:
  "distinct (map f xs) \<Longrightarrow> f ` set xs \<inter> fst ` set al = {} \<Longrightarrow>
   fold (\<lambda>x m. AList.update (f x) (g x) m) xs al = al @ map (\<lambda>x. (f x, g x)) xs"
proof (induction xs arbitrary: al)
  case Nil
  show ?case by simp
next
  case (Cons x xs)
  have fresh: "f x \<notin> fst ` set al" using Cons.prems(2) by auto
  have d: "distinct (map f xs)" using Cons.prems(1) by simp
  have disj: "f ` set xs \<inter> fst ` set (al @ [(f x, g x)]) = {}"
    using Cons.prems by auto
  show ?case
    by (simp add: update_fresh [OF fresh] Cons.IH [OF d disj])
qed

lemma fold_write:
  "fold (\<lambda>(tableName, content) store. store(f tableName \<mapsto> content)) xs fs
     = fs ++ map_of (rev (map (\<lambda>(tableName, content). (f tableName, content)) xs))"
proof (induction xs arbitrary: fs)
  case Nil
  show ?case by simp
next
  case (Cons x xs)
  let ?F = "\<lambda>(tableName, content) store. store(f tableName \<mapsto> content)"
  let ?G = "\<lambda>(tableName, content). (f tableName, content)"
  obtain k v where x: "x = (k, v)" by (cases x)
  have "fold ?F (x # xs) fs = fold ?F xs (fs(f k \<mapsto> v))"
    by (simp only: x fold_simps case_prod_conv)
  also have "\<dots> = fs(f k \<mapsto> v) ++ map_of (rev (map ?G xs))"
    by (rule Cons.IH)
  also have "\<dots> = fs ++ ([f k \<mapsto> v] ++ map_of (rev (map ?G xs)))"
    by (rule ext) (simp add: map_add_def split: option.splits)
  also have "\<dots> = fs ++ map_of (rev (map ?G (x # xs)))"
    by (simp add: x)
  finally show ?case .
qed

lemma generateFiles_add:
  "generateFiles J dir ifs fs = fs ++ generateFiles J dir ifs Map.empty"
  unfolding generateFiles_def Let_def fold_write
  by (rule ext) (simp add: map_add_def split: option.splits)

subsection \<open>The lines of a generated unit\<close>


lemma unlines_Cons: "unlines (x # xs) = x @ CHR 0x0A # unlines xs"
  by (simp add: unlines_def)

lemma unlines_Nil: "unlines [] = []"
  by (simp add: unlines_def)






lemma getFunction_lines: "getFunction t pks = unlines (getFunctionLines t pks)"
  by (simp add: getFunction_def getFunctionLines_def unlines_Cons unlines_Nil)

lemma updateFunction_lines:
  "updateFunction t columns pks = unlines (updateFunctionLines t columns pks)"
  by (simp add: updateFunction_def updateFunctionLines_def unlines_Cons unlines_Nil)

lemma deleteFunction_lines: "deleteFunction t pks = unlines (deleteFunctionLines t pks)"
  by (simp add: deleteFunction_def deleteFunctionLines_def unlines_Cons unlines_Nil)




lemma split_no_sep: "c \<notin> set l \<Longrightarrow> split c l = [l]"
  by (induction l) auto

































subsection \<open>The host's case conversion\<close>

lemma mapType_ascii_instance:
  "mapSqliteTypeToTypescript s = mapSqliteTypeToTypescriptWith toUpperCase s"
  by (simp add: mapSqliteTypeToTypescript_def mapSqliteTypeToTypescriptWith_def)

lemma toUpperChar_not_lower: "toUpperChar c \<notin> set lowerLetters"
  by (simp add: toUpperChar_def lowerLetters_def upperLetters_def)

lemma toUpperChar_ascii_C4: "(of_char c :: nat) < 128 \<Longrightarrow> c \<noteq> CHR 0xC4"
  by auto

lemma upperDotlessI_ascii:
  "list_all (\<lambda>c. (of_char c :: nat) < 128) s \<Longrightarrow> upperDotlessI s = toUpperCase s"
  by (induction s rule: upperDotlessI.induct) (auto simp: toUpperCase_def)

lemma upperDotlessI_no_lower: "set (upperDotlessI s) \<inter> set lowerLetters = {}"
proof (induction s rule: upperDotlessI.induct)
  case 1
  show ?case by simp
next
  case (2 a)
  show ?case using toUpperChar_not_lower [of a] by simp
next
  case (3 a b cs)
  have "CHR ''I'' \<notin> set lowerLetters" by (simp add: lowerLetters_def)
  with 3 toUpperChar_not_lower [of a] show ?case by auto
qed

lemma toUpperCase_no_lower: "set (toUpperCase s) \<inter> set lowerLetters = {}"
  using toUpperChar_not_lower by (auto simp: toUpperCase_def)

lemma prototype_name_has_lower:
  "n \<in> set objectPrototypeNames \<Longrightarrow> set n \<inter> set lowerLetters \<noteq> {}"
  by (auto simp: objectPrototypeNames_def lowerLetters_def)

subsection \<open>Plain names and record lookups\<close>










subsection \<open>The text of the create, get and update functions\<close>




subsection \<open>The documented example\<close>

text \<open>The generator as modelled gives the unit of the README, character for character.\<close>

lemma readme_example: "interfaceContent ''users'' readmeColumns = readmeUnit"
  by (simp add: interfaceContent_def readmeColumns_def readmeUnit_def primaryKeys_def
      importText_def typeDeclaration_def fieldLine_def fieldType_def nullSuffix_def
      insertFunction_def getAllFunction_def getFunction_def updateFunction_def
      deleteFunction_def pkParams_def pkWhere_def pkNames_def jsonStringArray_def
      jsonString_def jsonEscape_def pascalCase_def capitalize_def toLowerCase_def
      toUpperChar_def toLowerChar_def lowerLetters_def upperLetters_def
      mapSqliteTypeToTypescript_def typeMap_def toUpperCase_def)


section \<open>Claims\<close>




text \<open>
  C2 (as amended). Whatever the host's \<open>toUpperCase\<close> is, provided it is the ASCII
  conversion on ASCII text and leaves no letter \<open>a\<close> to \<open>z\<close> in its result: the type
  mapper cuts the storage type at its first \<open>(\<close>, upper-cases the part before it and
  looks that up in the six-entry table, with \<open>any\<close> for every other key (the key is
  never an inherited member name); it has a result for every string. \<open>INTEGER\<close> gives
  \<open>number | bigint\<close>; \<open>VARCHAR(255)\<close> gives \<open>any\<close>, since \<open>VARCHAR\<close> is not a key of the
  table; the qualifier in parentheses is ignored, so \<open>text(255)\<close> gives \<open>string\<close>;
  \<open>JSONB\<close> gives \<open>any\<close>. The mapper of the text generator above is the instance at the
  ASCII conversion.
\<close>

theorem mapType_table:
  assumes ascii: "\<And>s. list_all (\<lambda>c. (of_char c :: nat) < 128) s \<Longrightarrow> up s = toUpperCase s"
    and upper: "\<And>s. set (up s) \<inter> set lowerLetters = {}"
  shows "mapSqliteTypeToTypescriptWith up s =
     (let b = up (takeWhile (\<lambda>x. x \<noteq> CHR ''('') s)
      in if b = ''INTEGER'' then ''number | bigint''
         else if b = ''REAL'' then ''number''
         else if b = ''TEXT'' then ''string''
         else if b = ''BLOB'' then ''Uint8Array''
         else if b = ''BOOLEAN'' then ''number''
         else if b = ''TIMESTAMP'' then ''string''
         else ''any'')
   \<and> up (takeWhile (\<lambda>x. x \<noteq> CHR ''('') s) \<notin> set objectPrototypeNames
   \<and> mapSqliteTypeToTypescriptWith up ''INTEGER'' = ''number | bigint''
   \<and> mapSqliteTypeToTypescriptWith up ''VARCHAR(255)'' = ''any''
   \<and> mapSqliteTypeToTypescriptWith up ''text(255)'' = ''string''
   \<and> mapSqliteTypeToTypescriptWith up ''JSONB'' = ''any''
   \<and> mapSqliteTypeToTypescript s = mapSqliteTypeToTypescriptWith toUpperCase s"
proof -
  have table: "mapSqliteTypeToTypescriptWith up s =
     (let b = up (takeWhile (\<lambda>x. x \<noteq> CHR ''('') s)
      in if b = ''INTEGER'' then ''number | bigint''
         else if b = ''REAL'' then ''number''
         else if b = ''TEXT'' then ''string''
         else if b = ''BLOB'' then ''Uint8Array''
         else if b = ''BOOLEAN'' then ''number''
         else if b = ''TIMESTAMP'' then ''string''
         else ''any'')" for s
    by (simp add: mapSqliteTypeToTypescriptWith_def hd_split typeMap_def Let_def)
  have member: "up (takeWhile (\<lambda>x. x \<noteq> CHR ''('') s) \<notin> set objectPrototypeNames"
    using upper prototype_name_has_lower by blast
  have u1: "up ''INTEGER'' = ''INTEGER''" and u2: "up ''VARCHAR'' = ''VARCHAR''"
    and u3: "up ''text'' = ''TEXT''" and u4: "up ''JSONB'' = ''JSONB''"
    by (simp_all add: ascii toUpperCase_def toUpperChar_def lowerLetters_def upperLetters_def)
  have i1: "mapSqliteTypeToTypescriptWith up ''INTEGER'' = ''number | bigint''"
    by (simp add: table u1)
  have i2: "mapSqliteTypeToTypescriptWith up ''VARCHAR(255)'' = ''any''"
    by (simp add: table u2)
  have i3: "mapSqliteTypeToTypescriptWith up ''text(255)'' = ''string''"
    by (simp add: table u3)
  have i4: "mapSqliteTypeToTypescriptWith up ''JSONB'' = ''any''"
    by (simp add: table u4)
  from table [of s] member i1 i2 i3 i4 mapType_ascii_instance [of s] show ?thesis by blast
qed

text \<open>
  The witness takes a conversion that knows the dotless \<open>i\<close>: the declared type spelled
  with it maps as \<open>INTEGER\<close> does.
\<close>

theorem mapType_table_witness:
  "mapSqliteTypeToTypescriptWith upperDotlessI ([CHR 0xC4, CHR 0xB1] @ ''nteger'')
     = ''number | bigint''
   \<and> mapSqliteTypeToTypescriptWith upperDotlessI ''VARCHAR(255)'' = ''any''
   \<and> mapSqliteTypeToTypescriptWith upperDotlessI ''text(255)'' = ''string''"
proof -
  note m = mapType_table [of upperDotlessI, OF upperDotlessI_ascii upperDotlessI_no_lower]
  have a: "mapSqliteTypeToTypescriptWith upperDotlessI ([CHR 0xC4, CHR 0xB1] @ ''nteger'')
     = ''number | bigint''"
    using m [of "[CHR 0xC4, CHR 0xB1] @ ''nteger''", THEN conjunct1]
    by (simp add: toUpperChar_def lowerLetters_def upperLetters_def)
  from a m [of "[]"] show ?thesis by blast
qed

text \<open>
  C2 (as stated) fails at \<open>VARCHAR(255)\<close>: the result is not the string type.
\<close>

theorem mapType_varchar_counterexample:
  "mapSqliteTypeToTypescript ''VARCHAR(255)'' \<noteq> ''string''"
  by (simp add: mapSqliteTypeToTypescript_def hd_split typeMap_def Let_def
      toUpperCase_def toUpperChar_def lowerLetters_def upperLetters_def)

text \<open>
  C3. For a column of a table (the catalog reports no negative primary-key ordinal), the
  type of its field in the type declaration is the mapped type, followed by \<open>| null\<close>
  unless the column is declared \<open>NOT NULL\<close> or is one of the primary-key columns: the field
  has no null alternative if and only if the column is \<open>NOT NULL\<close> or in the primary key.
  The declaration lists one such field per column, in column order.
\<close>

theorem field_nullability:
  assumes "c \<in> set columns" and "0 \<le> pk c"
  shows "fieldType c =
           mapSqliteTypeToTypescript (ctype c)
             @ (if notnull c \<noteq> 0 \<or> c \<in> set (primaryKeys columns) then [] else '' | null'')
         \<and> (\<not> suffix '' | null'' (fieldType c))
             = (notnull c \<noteq> 0 \<or> c \<in> set (primaryKeys columns))
         \<and> typeDeclaration t columns =
             ''export interface '' @ pascalCase t @ '' {\<newline>''
             @ concat (map (\<lambda>c. ''    '' @ name c @ '': '' @ fieldType c @ '';\<newline>'') columns)
             @ ''}\<newline>\<newline>''"
proof -
  have key: "c \<in> set (primaryKeys columns) \<longleftrightarrow> pk c \<noteq> 0"
    using assms by (auto simp: set_primaryKeys)
  have ty: "fieldType c =
           mapSqliteTypeToTypescript (ctype c)
             @ (if notnull c \<noteq> 0 \<or> c \<in> set (primaryKeys columns) then [] else '' | null'')"
    by (simp add: fieldType_def nullSuffix_def key)
  have nn: "(\<not> suffix '' | null'' (fieldType c))
             = (notnull c \<noteq> 0 \<or> c \<in> set (primaryKeys columns))"
  proof (cases "notnull c \<noteq> 0 \<or> c \<in> set (primaryKeys columns)")
    case True
    then show ?thesis
      using mapType_no_null_suffix [of "ctype c"] by (simp add: ty)
  next
    case False
    have "suffix '' | null'' (mapSqliteTypeToTypescript (ctype c) @ '' | null'')"
      by (rule suffixI) (rule refl)
    with False show ?thesis by (simp add: ty)
  qed
  have decl: "typeDeclaration t columns =
             ''export interface '' @ pascalCase t @ '' {\<newline>''
             @ concat (map (\<lambda>c. ''    '' @ name c @ '': '' @ fieldType c @ '';\<newline>'') columns)
             @ ''}\<newline>\<newline>''"
    by (simp add: typeDeclaration_def fieldLine_def [abs_def])
  from ty nn decl show ?thesis by blast
qed

theorem field_nullability_witness:
  "map fieldType usersColumns = [''number | bigint'', ''string'', ''string | null'']
   \<and> \<not> suffix '' | null'' (fieldType (usersColumns ! 0))
   \<and> suffix '' | null'' (fieldType (usersColumns ! 2))"
proof -
  have m: "usersColumns ! 0 \<in> set usersColumns" "usersColumns ! 2 \<in> set usersColumns"
    by (simp_all add: usersColumns_def)
  have p: "0 \<le> pk (usersColumns ! 0)" "0 \<le> pk (usersColumns ! 2)"
    by (simp_all add: usersColumns_def)
  have k: "usersColumns ! 0 \<in> set (primaryKeys usersColumns)"
     "usersColumns ! 2 \<notin> set (primaryKeys usersColumns)"
    by (simp_all add: usersColumns_def primaryKeys_def)
  have n: "notnull (usersColumns ! 2) = 0" by (simp add: usersColumns_def)
  have f: "map fieldType usersColumns = [''number | bigint'', ''string'', ''string | null'']"
    by (simp add: usersColumns_def fieldType_def nullSuffix_def mapSqliteTypeToTypescript_def
        hd_split typeMap_def toUpperCase_def toUpperChar_def lowerLetters_def upperLetters_def)
  note a = field_nullability [OF m(1) p(1), of "''users''", THEN conjunct2, THEN conjunct1]
  note b = field_nullability [OF m(2) p(2), of "''users''", THEN conjunct2, THEN conjunct1]
  from a b k n f show ?thesis by simp
qed







text \<open>
  C6. The primary-key list holds exactly the columns with a positive ordinal, \<open>n\<close> of
  them, in ascending ordinal. The emitted get, update and delete functions are the texts
  below: each takes \<open>db\<close> and then one parameter per column of that list, in its order
  (the update function takes the record after them), and the \<open>WHERE\<close> clause of each is
  one \<open>name = ?\<close> per column of the same list, in the same order, joined by \<open>AND\<close>.
\<close>

theorem key_parameters:
  "(let pks = primaryKeys columns; P = pascalCase t;
        params = join '', '' (map (\<lambda>c. name c @ '': '' @ mapSqliteTypeToTypescript (ctype c)) pks);
        whereClause = join '' AND '' (map (\<lambda>c. name c @ '' = ?'') pks);
        args = join '', '' (map name pks)
    in length pks = length (filter (\<lambda>c. 0 < pk c) columns)
     \<and> mset pks = mset (filter (\<lambda>c. 0 < pk c) columns)
     \<and> sorted (map pk pks)
     \<and> getFunction t pks = unlines
         [''export function get'' @ P @ ''(db: Database, '' @ params @ ''): '' @ P
            @ '' | null {'',
          ''    const stmt = db.prepare<'' @ P @ '', (''
            @ mapSqliteTypeToTypescript (ctype (hd pks)) @ '')[]>('SELECT * FROM '' @ t
            @ '' WHERE '' @ whereClause @ [CHR 0x27] @ '');'',
          ''    return stmt.get('' @ args @ '') as '' @ P @ '' | null;'',
          ''}'',
          []]
     \<and> updateFunction t columns pks = unlines
         [''export function update'' @ P @ ''(db: Database, '' @ params @ '', '' @ t
            @ '': Partial<'' @ P @ ''>): '' @ P @ '' | null {'',
          ''    const columns = '' @ jsonStringArray (map name columns) @ '';'',
          ''    const updateColumns = columns.filter(col => '' @ t @ ''[col as keyof typeof ''
            @ t @ ''] !== undefined && !'' @ jsonStringArray (map name pks)
            @ ''.includes(col));'',
          ''    if (updateColumns.length === 0) return get'' @ P @ ''(db, '' @ args @ '');'',
          ''    const setClause = updateColumns.map(col => `${col} = ?`).join(', ');'',
          ''    const updateValues = updateColumns.map(col => '' @ t @ ''[col as keyof typeof ''
            @ t @ '']);'',
          ''    const sql = `UPDATE '' @ t @ '' SET ${setClause} WHERE '' @ whereClause
            @ '' RETURNING *`;'',
          ''    const stmt = db.prepare<'' @ P @ '', any[]>(sql);'',
          ''    const result = stmt.get([...updateValues, '' @ args @ '']);'',
          ''    return result as '' @ P @ '' | null;'',
          ''}'',
          []]
     \<and> deleteFunction t pks = unlines
         [''export function delete'' @ P @ ''(db: Database, '' @ params @ ''): void {'',
          ''    const stmt = db.prepare<'' @ P @ '', (''
            @ mapSqliteTypeToTypescript (ctype (hd pks)) @ '')[]>('DELETE FROM '' @ t
            @ '' WHERE '' @ whereClause @ [CHR 0x27] @ '');'',
          ''    stmt.run('' @ args @ '');'',
          ''}''])"
proof -
  have len: "length (primaryKeys columns) = length (filter (\<lambda>c. 0 < pk c) columns)"
    by (simp add: primaryKeys_def)
  have perm: "mset (primaryKeys columns) = mset (filter (\<lambda>c. 0 < pk c) columns)"
    by (simp add: primaryKeys_def)
  have asc: "sorted (map pk (primaryKeys columns))"
    by (simp add: primaryKeys_def)
  note texts =
    getFunction_lines [of t "primaryKeys columns", unfolded getFunctionLines_def pkParams_def
      pkWhere_def pkNames_def]
    updateFunction_lines [of t columns "primaryKeys columns", unfolded updateFunctionLines_def
      pkParams_def pkWhere_def pkNames_def]
    deleteFunction_lines [of t "primaryKeys columns", unfolded deleteFunctionLines_def
      pkParams_def pkWhere_def pkNames_def]
  show ?thesis
    unfolding Let_def
    by (intro conjI len perm asc texts)
qed

theorem key_parameters_witness:
  "map name (primaryKeys orderLinesColumns) = [''order_id'', ''line_no'']
   \<and> getFunction ''order_lines'' (primaryKeys orderLinesColumns) = unlines
       [''export function getOrderLines(db: Database, order_id: string, line_no: number | bigint): OrderLines | null {'',
        ''    const stmt = db.prepare<OrderLines, (string)[]>('SELECT * FROM order_lines WHERE order_id = ? AND line_no = ?');'',
        ''    return stmt.get(order_id, line_no) as OrderLines | null;'',
        ''}'',
        []]"
proof -
  have p: "primaryKeys orderLinesColumns = [orderIdColumn, lineNoColumn]"
    by (simp add: primaryKeys_def orderLinesColumns_def lineNoColumn_def orderIdColumn_def
        qtyColumn_def)
  have n: "name orderIdColumn = ''order_id''" "name lineNoColumn = ''line_no''"
    "ctype orderIdColumn = ''TEXT''" "ctype lineNoColumn = ''INTEGER''"
    by (simp_all add: lineNoColumn_def orderIdColumn_def)
  have c: "pascalCase ''order_lines'' = ''OrderLines''"
    by (simp add: pascalCase_def capitalize_def toUpperChar_def toLowerCase_def toLowerChar_def
        lowerLetters_def upperLetters_def)
  note k = key_parameters [of orderLinesColumns "''order_lines''", unfolded Let_def]
  note kg = k [THEN conjunct2, THEN conjunct2, THEN conjunct2, THEN conjunct1]
  have a: "map name (primaryKeys orderLinesColumns) = [''order_id'', ''line_no'']"
    by (simp add: p n)
  have b: "getFunction ''order_lines'' (primaryKeys orderLinesColumns) = unlines
       [''export function getOrderLines(db: Database, order_id: string, line_no: number | bigint): OrderLines | null {'',
        ''    const stmt = db.prepare<OrderLines, (string)[]>('SELECT * FROM order_lines WHERE order_id = ? AND line_no = ?');'',
        ''    return stmt.get(order_id, line_no) as OrderLines | null;'',
        ''}'',
        []]"
    using kg by (simp add: p n c)
  from a b show ?thesis by blast
qed




text \<open>
  C8 (as amended). The output mapping is keyed by the table name, not by the type name:
  for distinct table names it holds one unit per table, in catalog order, each under its
  own table name, whether or not two names give the same type name. Nothing is
  overwritten and nothing is detected.
\<close>

theorem units_keyed_by_table_name:
  assumes "distinct (map tname (tables db))"
  shows "generateInterfaces db =
           map (\<lambda>table. (tname table, interfaceContent (tname table)
                                        (table_info db (tname table)))) (tables db)
         \<and> map fst (generateInterfaces db) = map tname (tables db)
         \<and> (\<forall>table \<in> set (tables db).
               map_of (generateInterfaces db) (tname table)
                 = Some (interfaceContent (tname table) (table_info db (tname table))))"
proof -
  have eq: "generateInterfaces db =
           map (\<lambda>table. (tname table, interfaceContent (tname table)
                                        (table_info db (tname table)))) (tables db)"
    unfolding generateInterfaces_def
    using fold_update_distinct [OF assms, of "[]"] by simp
  have keys: "map fst (generateInterfaces db) = map tname (tables db)"
    by (simp add: eq comp_def)
  have d: "distinct (map fst (generateInterfaces db))"
    using assms by (simp add: keys)
  have look: "\<forall>table \<in> set (tables db).
               map_of (generateInterfaces db) (tname table)
                 = Some (interfaceContent (tname table) (table_info db (tname table)))"
  proof
    fix table assume "table \<in> set (tables db)"
    then have "(tname table, interfaceContent (tname table) (table_info db (tname table)))
                 \<in> set (generateInterfaces db)"
      by (auto simp: eq)
    with d show "map_of (generateInterfaces db) (tname table)
                 = Some (interfaceContent (tname table) (table_info db (tname table)))"
      by simp
  qed
  from eq keys look show ?thesis by blast
qed

theorem units_keyed_by_table_name_witness:
  "pascalCase ''user_s'' = pascalCase ''user__s''
   \<and> generateInterfaces collidingCatalog =
       [(''user_s'', interfaceContent ''user_s'' usersColumns),
        (''user__s'', interfaceContent ''user__s'' usersColumns)]"
proof -
  have d: "distinct (map tname (tables collidingCatalog))"
    by (simp add: collidingCatalog_def)
  have p: "pascalCase ''user_s'' = pascalCase ''user__s''"
    by (simp add: pascalCase_def capitalize_def)
  from units_keyed_by_table_name [OF d, THEN conjunct1] p
  show ?thesis by (simp add: collidingCatalog_def)
qed

text \<open>
  C8 (as stated) fails for \<open>user_s\<close> and \<open>user__s\<close>: both give the type name \<open>UserS\<close>,
  and the mapping holds the unit of each.
\<close>

theorem colliding_names_counterexample:
  "''user_s'' \<noteq> ''user__s''
   \<and> pascalCase ''user_s'' = ''UserS'' \<and> pascalCase ''user__s'' = ''UserS''
   \<and> map fst (generateInterfaces collidingCatalog) = [''user_s'', ''user__s'']
   \<and> map_of (generateInterfaces collidingCatalog) ''user_s''
       = Some (interfaceContent ''user_s'' usersColumns)
   \<and> map_of (generateInterfaces collidingCatalog) ''user__s''
       = Some (interfaceContent ''user__s'' usersColumns)"
  by (simp add: generateInterfaces_def collidingCatalog_def pascalCase_def capitalize_def
      toUpperChar_def toLowerCase_def toLowerChar_def lowerLetters_def upperLetters_def)

text \<open>
  C9. A run writes the same files with the same text whatever the store held before: the
  store after a run is the store before it, overridden by files that depend on the
  catalog and the output directory only. A second run on the result changes nothing, and
  the manifest is the text computed from the output mapping.
\<close>

theorem run_deterministic:
  "run J dir db fs = fs ++ run J dir db Map.empty
   \<and> run J dir db (run J dir db fs) = run J dir db fs
   \<and> (\<forall>p. p \<in> dom (run J dir db Map.empty) \<longrightarrow> run J dir db fs p = run J dir db fs' p)
   \<and> run J dir db fs (J dir ''index.ts'') = Some (indexContent (generateInterfaces db))"
proof -
  have a: "run J dir db fs = fs ++ run J dir db Map.empty" for fs
    unfolding run_def by (rule generateFiles_add)
  have "(fs ++ m) ++ m = fs ++ m" for m :: files
    by (rule ext) (simp add: map_add_def split: option.splits)
  then have b: "run J dir db (run J dir db fs) = run J dir db fs"
    using a [of "run J dir db fs"] a [of fs] by simp
  have c: "\<forall>p. p \<in> dom (run J dir db Map.empty) \<longrightarrow> run J dir db fs p = run J dir db fs' p"
    using a [of fs] a [of fs'] by (auto simp: map_add_def split: option.splits)
  have d: "run J dir db fs (J dir ''index.ts'') = Some (indexContent (generateInterfaces db))"
    by (simp add: run_def generateFiles_def Let_def)
  from a b c d show ?thesis by blast
qed

theorem run_deterministic_witness:
  "run slashJoin ''out'' collidingCatalog [''out/index.ts'' \<mapsto> ''old'', ''keep'' \<mapsto> ''me'']
     = [''keep'' \<mapsto> ''me''] ++ run slashJoin ''out'' collidingCatalog Map.empty
   \<and> run slashJoin ''out'' collidingCatalog Map.empty ''out/index.ts''
       = Some (''export * from './user_s';\<newline>export * from './user__s';'')"
proof -
  note r = run_deterministic [of slashJoin "''out''" collidingCatalog]
  have i: "slashJoin ''out'' ''index.ts'' = ''out/index.ts''" by (simp add: slashJoin_def)
  have ic: "indexContent (generateInterfaces collidingCatalog)
      = ''export * from './user_s';\<newline>export * from './user__s';''"
    by (simp add: indexContent_def generateInterfaces_def collidingCatalog_def)
  have dm: "''out/index.ts'' \<in> dom (run slashJoin ''out'' collidingCatalog Map.empty)"
    using r [of Map.empty, THEN conjunct2, THEN conjunct2, THEN conjunct2] by (auto simp: i)
  have idx: "run slashJoin ''out'' collidingCatalog Map.empty ''out/index.ts''
       = Some (''export * from './user_s';\<newline>export * from './user__s';'')"
    using r [of Map.empty, THEN conjunct2, THEN conjunct2, THEN conjunct2] by (simp add: i ic)
  have "run slashJoin ''out'' collidingCatalog [''out/index.ts'' \<mapsto> ''old'', ''keep'' \<mapsto> ''me'']
     = [''out/index.ts'' \<mapsto> ''old'', ''keep'' \<mapsto> ''me'']
         ++ run slashJoin ''out'' collidingCatalog Map.empty"
    using r [THEN conjunct1] .
  also have "\<dots> = [''keep'' \<mapsto> ''me''] ++ run slashJoin ''out'' collidingCatalog Map.empty"
    using dm by (intro ext) (auto simp: map_add_def split: option.splits)
  finally show ?thesis using idx by simp
qed




end
